theory Spec2Isabelle
  imports Main "HOL-Library.Word" "HOL-Library.Multiset"
begin

section \<open>The memtable of eagle-db: a sharded hash table with incremental resize\<close>

text \<open>
  The embedding follows \<^verbatim>\<open>memtable.go\<close> function by function.

  \<^item> A \<^verbatim>\<open>node\<close> is a record; its \<^verbatim>\<open>next\<close> pointer is not a field: a bucket chain is the
    list of its nodes, head first, so \<^verbatim>\<open>nd.next\<close> is the rest of the list after \<^verbatim>\<open>nd\<close>.
    Every node of the source is linked into exactly one chain, so no aliasing is lost.
  \<^item> A pointer to a node is a reference \<open>(a, j, pos)\<close>: array \<open>a\<close> (0 is
    \<^verbatim>\<open>buckets[0]\<close>, 1 is \<^verbatim>\<open>buckets[1]\<close>), bucket \<open>j\<close>, position \<open>pos\<close> in the chain.
  \<^item> A Go slice that may be \<^verbatim>\<open>nil\<close> is an option; \<^verbatim>\<open>len\<close> of \<^verbatim>\<open>nil\<close> is 0.
  \<^item> A panic is the \<open>Inl\<close> branch of the result.
  \<^item> \<^verbatim>\<open>hashKey\<close> (murmur3, an external library) is a parameter of every function
    that calls it.
  \<^item> The locks are not modelled: the operations of one partition run one after the other.
\<close>

datatype error = IndexOutOfRange | DivideByZero | MakeSliceLenOutOfRange

type_synonym bytes = "8 word list"

record 'p node =
  seqNumber :: "64 word"
  key :: bytes
  ptr :: "'p option"

type_synonym 'p chain = "'p node list"
type_synonym 'p slice = "'p chain list option"
type_synonym ref = "nat \<times> nat \<times> nat"

record 'p tablePartition =
  resizeInProgress :: bool
  nextResizeIndex :: int
  buckets0 :: "'p slice"
  buckets1 :: "'p slice"
  nElements :: int
  nNodes :: int

record 'p memTable =
  partitions :: "'p tablePartition list"

definition initialBucketSize :: int where
  "initialBucketSize = 4"

definition numPartitions :: nat where
  "numPartitions = 16"

text \<open>
  Modelled from the spec: \<^verbatim>\<open>util.AtomicInt32\<close> is not among the sources. The counters are
  signed 32-bit integers; \<^verbatim>\<open>Inc\<close> adds one, \<^verbatim>\<open>Add\<close> adds its argument, \<^verbatim>\<open>Get\<close> reads.
  \<open>int32\<close> is the wrap-around of Go's \<^verbatim>\<open>int32\<close> arithmetic and conversion.
\<close>

definition int32 :: "int \<Rightarrow> int" where
  "int32 x = (x + 2 ^ 31) mod 2 ^ 32 - 2 ^ 31"

text \<open>Go's integer division truncates towards zero.\<close>

definition quo :: "int \<Rightarrow> int \<Rightarrow> int" where
  "quo a b = sgn a * sgn b * (\<bar>a\<bar> div \<bar>b\<bar>)"

definition slen :: "'p slice \<Rightarrow> nat" where
  "slen s = (case s of None \<Rightarrow> 0 | Some bs \<Rightarrow> length bs)"

text \<open>\<^verbatim>\<open>hash % uint32(len(buckets))\<close>: the length is truncated to 32 bits, and a zero divisor panics.\<close>

definition bucketHash :: "32 word \<Rightarrow> 'p slice \<Rightarrow> error + nat" where
  "bucketHash hash s =
     (let n = slen s mod 2 ^ 32
      in if n = 0 then Inl DivideByZero else Inr (unat hash mod n))"

definition slice :: "'p tablePartition \<Rightarrow> nat \<Rightarrow> 'p slice" where
  "slice t a = (if a = 0 then buckets0 t else buckets1 t)"

text \<open>\<^verbatim>\<open>t.buckets[i]\<close> for a computed index: \<^verbatim>\<open>t.buckets\<close> has length 2.\<close>

definition sliceAt :: "'p tablePartition \<Rightarrow> int \<Rightarrow> error + 'p slice" where
  "sliceAt t i =
     (if i = 0 then Inr (buckets0 t) else if i = 1 then Inr (buckets1 t) else Inl IndexOutOfRange)"

definition chainAt :: "'p tablePartition \<Rightarrow> nat \<Rightarrow> nat \<Rightarrow> 'p chain" where
  "chainAt t a j = (case slice t a of None \<Rightarrow> [] | Some bs \<Rightarrow> bs ! j)"

definition setChain :: "'p tablePartition \<Rightarrow> nat \<Rightarrow> nat \<Rightarrow> 'p chain \<Rightarrow> 'p tablePartition" where
  "setChain t a j c =
     (if a = 0 then t\<lparr>buckets0 := map_option (\<lambda>bs. bs[j := c]) (buckets0 t)\<rparr>
      else t\<lparr>buckets1 := map_option (\<lambda>bs. bs[j := c]) (buckets1 t)\<rparr>)"

definition nodeAt :: "'p tablePartition \<Rightarrow> ref \<Rightarrow> 'p node" where
  "nodeAt t r = (case r of (a, j, pos) \<Rightarrow> chainAt t a j ! pos)"

definition setNode :: "'p tablePartition \<Rightarrow> ref \<Rightarrow> 'p node \<Rightarrow> 'p tablePartition" where
  "setNode t r nd = (case r of (a, j, pos) \<Rightarrow> setChain t a j ((chainAt t a j)[pos := nd]))"

text \<open>\<^verbatim>\<open>nd.next\<close>: the nodes after the referenced one in its chain.\<close>

definition nextOf :: "'p tablePartition \<Rightarrow> ref \<Rightarrow> 'p chain" where
  "nextOf t r = (case r of (a, j, pos) \<Rightarrow> drop (Suc pos) (chainAt t a j))"

definition prevOf :: "ref \<Rightarrow> ref option" where
  "prevOf r = (case r of (a, j, pos) \<Rightarrow> if pos = 0 then None else Some (a, j, pos - 1))"

definition newTablePartition :: "'p tablePartition" where
  "newTablePartition =
     \<lparr>resizeInProgress = False, nextResizeIndex = - 1,
      buckets0 = Some (replicate (nat initialBucketSize) []), buckets1 = None,
      nElements = 0, nNodes = 0\<rparr>"

definition newMemTable :: "'p memTable" where
  "newMemTable = \<lparr>partitions = replicate numPartitions newTablePartition\<rparr>"

subsection \<open>findNode\<close>

text \<open>The inner loop of \<^verbatim>\<open>findNode\<close>: the position of the first node of the chain with the key.\<close>

fun scan :: "bytes \<Rightarrow> 'p chain \<Rightarrow> nat option" where
  "scan k [] = None"
| "scan k (nd # rest) = (if key nd = k then Some 0 else map_option Suc (scan k rest))"

definition findIn :: "'p tablePartition \<Rightarrow> nat \<Rightarrow> bytes \<Rightarrow> 32 word \<Rightarrow> error + ref option" where
  "findIn t a k hash =
     (case slice t a of
        None \<Rightarrow> Inr None
      | Some bs \<Rightarrow>
          (case bucketHash hash (Some bs) of
             Inl e \<Rightarrow> Inl e
           | Inr j \<Rightarrow> Inr (map_option (\<lambda>pos. (a, j, pos)) (scan k (bs ! j)))))"

text \<open>The result is \<^verbatim>\<open>(bucketIndex, prevNode, node)\<close>; \<^verbatim>\<open>(-1, nil, nil)\<close> when the key is not found.\<close>

definition findNode ::
  "'p tablePartition \<Rightarrow> bytes \<Rightarrow> 32 word \<Rightarrow> error + (int \<times> ref option \<times> ref option)" where
  "findNode t k hash =
     (case findIn t 0 k hash of
        Inl e \<Rightarrow> Inl e
      | Inr (Some r) \<Rightarrow> Inr (0, prevOf r, Some r)
      | Inr None \<Rightarrow>
          (case findIn t 1 k hash of
             Inl e \<Rightarrow> Inl e
           | Inr (Some r) \<Rightarrow> Inr (1, prevOf r, Some r)
           | Inr None \<Rightarrow> Inr (- 1, None, None)))"

subsection \<open>Resize\<close>

definition completeResize :: "'p tablePartition \<Rightarrow> 'p tablePartition" where
  "completeResize t =
     t\<lparr>buckets0 := buckets1 t, buckets1 := None, resizeInProgress := False, nextResizeIndex := - 1\<rparr>"

text \<open>The loop of \<^verbatim>\<open>resizeStep\<close>: each node of the chain is pushed on the head of its new bucket.\<close>

fun migrate :: "(bytes \<Rightarrow> 32 word) \<Rightarrow> 'p chain \<Rightarrow> 'p slice \<Rightarrow> error + 'p slice" where
  "migrate hashKey [] s = Inr s"
| "migrate hashKey (nd # rest) s =
     (case bucketHash (hashKey (key nd)) s of
        Inl e \<Rightarrow> Inl e
      | Inr newHash \<Rightarrow>
          migrate hashKey rest (map_option (\<lambda>bs. bs[newHash := nd # bs ! newHash]) s))"

definition resizeStep ::
  "(bytes \<Rightarrow> 32 word) \<Rightarrow> 'p tablePartition \<Rightarrow> error + 'p tablePartition" where
  "resizeStep hashKey t =
     (if resizeInProgress t then
        (let idx = nextResizeIndex t + 1 in
         case buckets0 t of
           None \<Rightarrow> Inl IndexOutOfRange
         | Some bs0 \<Rightarrow>
             if idx < 0 \<or> int (length bs0) \<le> idx then Inl IndexOutOfRange
             else
               (case migrate hashKey (bs0 ! nat idx) (buckets1 t) of
                  Inl e \<Rightarrow> Inl e
                | Inr s1 \<Rightarrow>
                    (let t' = t\<lparr>nextResizeIndex := idx,
                                buckets0 := Some (bs0[nat idx := []]), buckets1 := s1\<rparr>
                     in Inr (if idx = int (length bs0) - 1 then completeResize t' else t'))))
      else Inr t)"

text \<open>\<^verbatim>\<open>make([]*node, n)\<close> panics on a negative length.\<close>

definition makeSlice :: "int \<Rightarrow> error + 'p slice" where
  "makeSlice n = (if n < 0 then Inl MakeSliceLenOutOfRange else Inr (Some (replicate (nat n) [])))"

definition resizeIfNeeded :: "'p tablePartition \<Rightarrow> error + 'p tablePartition" where
  "resizeIfNeeded t =
     (if resizeInProgress t then Inr t
      else
        (let n = nNodes t; nBuckets = int32 (int (slen (buckets0 t))) in
         if n > int32 (5 * nBuckets) then
           (case makeSlice (int32 (2 * nBuckets)) of
              Inl e \<Rightarrow> Inl e
            | Inr s \<Rightarrow> Inr (t\<lparr>buckets1 := s, resizeInProgress := True\<rparr>))
         else if n < quo nBuckets 4 \<and> n > initialBucketSize then
           (case makeSlice (quo nBuckets 2) of
              Inl e \<Rightarrow> Inl e
            | Inr s \<Rightarrow> Inr (t\<lparr>buckets1 := s, resizeInProgress := True\<rparr>))
         else Inr t))"

subsection \<open>get, put, remove\<close>

definition get ::
  "'p tablePartition \<Rightarrow> bytes \<Rightarrow> 32 word \<Rightarrow> error + ('p option \<times> 64 word)" where
  "get t k hash =
     (case findNode t k hash of
        Inl e \<Rightarrow> Inl e
      | Inr (bucketIndex, prevNode, found) \<Rightarrow>
          (case found of
             Some r \<Rightarrow> Inr (ptr (nodeAt t r), seqNumber (nodeAt t r))
           | None \<Rightarrow> Inr (None, 0)))"

definition containsKey :: "'p tablePartition \<Rightarrow> bytes \<Rightarrow> 32 word \<Rightarrow> error + bool" where
  "containsKey t k hash =
     (case get t k hash of Inl e \<Rightarrow> Inl e | Inr (p, s) \<Rightarrow> Inr (p \<noteq> None))"

text \<open>
  The creation branch of \<^verbatim>\<open>put\<close>: the new node is linked at the head of its bucket, in
  \<^verbatim>\<open>buckets[1]\<close> while a resize is in progress, and both counters are incremented.
\<close>

definition linkNew ::
  "'p tablePartition \<Rightarrow> bytes \<Rightarrow> 32 word \<Rightarrow> error + ('p tablePartition \<times> ref)" where
  "linkNew t k hash =
     (let a = (if resizeInProgress t then 1 else 0) in
      case bucketHash hash (slice t a) of
        Inl e \<Rightarrow> Inl e
      | Inr j \<Rightarrow>
          (let t' = setChain t a j (\<lparr>seqNumber = 0, key = k, ptr = None\<rparr> # chainAt t a j)
           in Inr (t'\<lparr>nElements := int32 (nElements t' + 1), nNodes := int32 (nNodes t' + 1)\<rparr>,
                   (a, j, 0))))"

text \<open>
  The unlink branch of \<^verbatim>\<open>put\<close>: through the predecessor when there is one, else through
  the bucket head of \<^verbatim>\<open>t.buckets[bucketIndex]\<close>; then \<^verbatim>\<open>nNodes\<close> is decremented.
\<close>

definition unlink ::
  "'p tablePartition \<Rightarrow> int \<Rightarrow> ref option \<Rightarrow> ref \<Rightarrow> 32 word \<Rightarrow> error + 'p tablePartition" where
  "unlink t bucketIndex prevNode currNode hash =
     (case (case prevNode of
              Some (a, j, q) \<Rightarrow>
                Inr (setChain t a j (take (Suc q) (chainAt t a j) @ nextOf t currNode))
            | None \<Rightarrow>
                (case sliceAt t bucketIndex of
                   Inl e \<Rightarrow> Inl e
                 | Inr s \<Rightarrow>
                     (case bucketHash hash s of
                        Inl e \<Rightarrow> Inl e
                      | Inr bh \<Rightarrow> Inr (setChain t (nat bucketIndex) bh (nextOf t currNode))))) of
        Inl e \<Rightarrow> Inl e
      | Inr t' \<Rightarrow> Inr (t'\<lparr>nNodes := int32 (nNodes t' - 1)\<rparr>))"

definition put ::
  "(bytes \<Rightarrow> 32 word) \<Rightarrow> 'p tablePartition \<Rightarrow> bytes \<Rightarrow> 64 word \<Rightarrow> 'p option \<Rightarrow> 32 word
     \<Rightarrow> error + ('p tablePartition \<times> 'p option \<times> bool)" where
  "put hashKey t k seqNum p hash =
     (case resizeStep hashKey t of
        Inl e \<Rightarrow> Inl e
      | Inr t1 \<Rightarrow>
     (case findNode t1 k hash of
        Inl e \<Rightarrow> Inl e
      | Inr (bucketIndex, prevNode, found) \<Rightarrow>
     (case (case found of Some r \<Rightarrow> Inr (t1, r) | None \<Rightarrow> linkNew t1 k hash) of
        Inl e \<Rightarrow> Inl e
      | Inr (t2, currNode) \<Rightarrow>
          if seqNum \<ge> seqNumber (nodeAt t2 currNode) then
            (let prev = ptr (nodeAt t2 currNode) in
             case (if p = None then unlink t2 bucketIndex prevNode currNode hash
                   else Inr (setNode t2 currNode
                               ((nodeAt t2 currNode)\<lparr>seqNumber := seqNum, ptr := p\<rparr>))) of
               Inl e \<Rightarrow> Inl e
             | Inr t3 \<Rightarrow>
                 (case resizeIfNeeded t3 of
                    Inl e \<Rightarrow> Inl e
                  | Inr t4 \<Rightarrow> Inr (t4, prev, True)))
          else
            (case resizeIfNeeded t2 of
               Inl e \<Rightarrow> Inl e
             | Inr t4 \<Rightarrow> Inr (t4, p, False)))))"

definition remove ::
  "(bytes \<Rightarrow> 32 word) \<Rightarrow> 'p tablePartition \<Rightarrow> bytes \<Rightarrow> 64 word \<Rightarrow> 32 word
     \<Rightarrow> error + ('p tablePartition \<times> 'p option)" where
  "remove hashKey t k seqNum hash =
     (case resizeStep hashKey t of
        Inl e \<Rightarrow> Inl e
      | Inr t1 \<Rightarrow>
     (case findNode t1 k hash of
        Inl e \<Rightarrow> Inl e
      | Inr (bucketIndex, prevNode, found) \<Rightarrow>
          (case found of
             None \<Rightarrow> Inr (t1, None)
           | Some r \<Rightarrow>
               if seqNum \<ge> seqNumber (nodeAt t1 r) then
                 (let removePtr = ptr (nodeAt t1 r);
                      t2 = setNode t1 r ((nodeAt t1 r)\<lparr>ptr := None\<rparr>)
                  in Inr (if removePtr \<noteq> None then t2\<lparr>nElements := int32 (nElements t2 - 1)\<rparr>
                          else t2, removePtr))
               else Inr (t1, None))))"

subsection \<open>The sharded table\<close>

text \<open>\<^verbatim>\<open>p := hash >> 28\<close>, then \<^verbatim>\<open>t.partitions[p]\<close>, which panics out of range.\<close>

definition partitionOf :: "'p memTable \<Rightarrow> 32 word \<Rightarrow> error + nat" where
  "partitionOf T hash =
     (let p = unat (drop_bit 28 hash)
      in if p < length (partitions T) then Inr p else Inl IndexOutOfRange)"

definition Get ::
  "(bytes \<Rightarrow> 32 word) \<Rightarrow> 'p memTable \<Rightarrow> bytes \<Rightarrow> error + ('p option \<times> 64 word)" where
  "Get hashKey T k =
     (let hash = hashKey k in
      case partitionOf T hash of
        Inl e \<Rightarrow> Inl e
      | Inr p \<Rightarrow> get (partitions T ! p) k hash)"

definition ContainsKey :: "(bytes \<Rightarrow> 32 word) \<Rightarrow> 'p memTable \<Rightarrow> bytes \<Rightarrow> error + bool" where
  "ContainsKey hashKey T k =
     (let hash = hashKey k in
      case partitionOf T hash of
        Inl e \<Rightarrow> Inl e
      | Inr p \<Rightarrow> containsKey (partitions T ! p) k hash)"

definition Put ::
  "(bytes \<Rightarrow> 32 word) \<Rightarrow> 'p memTable \<Rightarrow> bytes \<Rightarrow> 64 word \<Rightarrow> 'p option
     \<Rightarrow> error + ('p memTable \<times> 'p option \<times> bool)" where
  "Put hashKey T k seqNum p =
     (let hash = hashKey k in
      case partitionOf T hash of
        Inl e \<Rightarrow> Inl e
      | Inr i \<Rightarrow>
          (case put hashKey (partitions T ! i) k seqNum p hash of
             Inl e \<Rightarrow> Inl e
           | Inr (t', res) \<Rightarrow> Inr (T\<lparr>partitions := (partitions T)[i := t']\<rparr>, res)))"

definition Remove ::
  "(bytes \<Rightarrow> 32 word) \<Rightarrow> 'p memTable \<Rightarrow> bytes \<Rightarrow> 64 word \<Rightarrow> error + ('p memTable \<times> 'p option)" where
  "Remove hashKey T k seqNum =
     (let hash = hashKey k in
      case partitionOf T hash of
        Inl e \<Rightarrow> Inl e
      | Inr i \<Rightarrow>
          (case remove hashKey (partitions T ! i) k seqNum hash of
             Inl e \<Rightarrow> Inl e
           | Inr (t', res) \<Rightarrow> Inr (T\<lparr>partitions := (partitions T)[i := t']\<rparr>, res)))"

text \<open>\<^verbatim>\<open>Size\<close> adds the partitions' \<^verbatim>\<open>nElements\<close> in a 64-bit \<^verbatim>\<open>int\<close>, which 16 counters never overflow.\<close>

definition Size :: "'p memTable \<Rightarrow> int" where
  "Size T = fold (\<lambda>t n. n + nElements t) (partitions T) 0"

subsection \<open>Sequences of operations\<close>

datatype 'p operation =
  PutOp bytes "64 word" "'p option" | RemoveOp bytes "64 word" | GetOp bytes

datatype 'p result =
  PutRes "'p option" bool | RemoveRes "'p option" | GetRes "'p option" "64 word"

fun applyOp ::
  "(bytes \<Rightarrow> 32 word) \<Rightarrow> 'p memTable \<Rightarrow> 'p operation \<Rightarrow> error + ('p memTable \<times> 'p result)" where
  "applyOp hashKey T (PutOp k s p) =
     (case Put hashKey T k s p of
        Inl e \<Rightarrow> Inl e
      | Inr (T', prev, applied) \<Rightarrow> Inr (T', PutRes prev applied))"
| "applyOp hashKey T (RemoveOp k s) =
     (case Remove hashKey T k s of Inl e \<Rightarrow> Inl e | Inr (T', prev) \<Rightarrow> Inr (T', RemoveRes prev))"
| "applyOp hashKey T (GetOp k) =
     (case Get hashKey T k of Inl e \<Rightarrow> Inl e | Inr (p, s) \<Rightarrow> Inr (T, GetRes p s))"

text \<open>A run stops at the first panic, as the process would; it returns the last table.\<close>

fun run :: "(bytes \<Rightarrow> 32 word) \<Rightarrow> 'p memTable \<Rightarrow> 'p operation list \<Rightarrow> error + 'p memTable" where
  "run hashKey T [] = Inr T"
| "run hashKey T (x # xs) =
     (case applyOp hashKey T x of Inl e \<Rightarrow> Inl e | Inr (T', r) \<Rightarrow> run hashKey T' xs)"

text \<open>The results of the operations of a run, in order.\<close>

fun results ::
  "(bytes \<Rightarrow> 32 word) \<Rightarrow> 'p memTable \<Rightarrow> 'p operation list \<Rightarrow> error + 'p result list" where
  "results hashKey T [] = Inr []"
| "results hashKey T (x # xs) =
     (case applyOp hashKey T x of
        Inl e \<Rightarrow> Inl e
      | Inr (T', r) \<Rightarrow>
          (case results hashKey T' xs of Inl e \<Rightarrow> Inl e | Inr rs \<Rightarrow> Inr (r # rs)))"

subsection \<open>What a partition holds\<close>

definition chains :: "'p slice \<Rightarrow> 'p chain list" where
  "chains s = (case s of None \<Rightarrow> [] | Some bs \<Rightarrow> bs)"

text \<open>Every node linked in a partition: the chains of \<^verbatim>\<open>buckets[0]\<close>, then those of \<^verbatim>\<open>buckets[1]\<close>.\<close>

definition nodes :: "'p tablePartition \<Rightarrow> 'p node list" where
  "nodes t = concat (chains (buckets0 t)) @ concat (chains (buckets1 t))"

text \<open>The entries whose value pointer is present.\<close>

definition liveCount :: "'p tablePartition \<Rightarrow> nat" where
  "liveCount t = length (filter (\<lambda>nd. ptr nd \<noteq> None) (nodes t))"

text \<open>A hash function for the concrete examples: every key hashes to 0.\<close>

definition zeroHash :: "bytes \<Rightarrow> 32 word" where
  "zeroHash k = 0"

section \<open>Basic facts\<close>

lemma partition_index_bound: "unat (drop_bit 28 (h::32 word)) < 16"
proof -
  have "unat h < 2 ^ 32" using unsigned_less[of h] by simp
  then have "unat h div 2 ^ 28 < 16" by simp
  then show ?thesis by (simp add: unat_drop_bit_eq drop_bit_eq_div unat_div)
qed

lemmas model_defs =
  Put_def Get_def Remove_def partitionOf_def newMemTable_def numPartitions_def put_def get_def
  remove_def newTablePartition_def resizeStep_def findNode_def findIn_def slice_def
  bucketHash_def slen_def initialBucketSize_def linkNew_def setChain_def chainAt_def nodeAt_def
  setNode_def unlink_def sliceAt_def prevOf_def nextOf_def resizeIfNeeded_def int32_def quo_def
  makeSlice_def completeResize_def Let_def

lemma sum_list_map_update:
  fixes f :: "'a \<Rightarrow> 'b::comm_monoid_add"
  shows "i < length xs \<Longrightarrow> sum_list (map f (xs[i := x])) + f (xs ! i) = sum_list (map f xs) + f x"
proof (induction xs arbitrary: i)
  case Nil
  then show ?case by simp
next
  case (Cons y ys)
  show ?case
  proof (cases i)
    case 0
    then show ?thesis by (simp add: ac_simps)
  next
    case (Suc n)
    with Cons.prems have "n < length ys" by simp
    from Cons.IH[OF this] Suc show ?thesis by (simp add: ac_simps)
  qed
qed

lemma Size_sum_list: "Size T = sum_list (map nElements (partitions T))"
proof -
  have "fold (\<lambda>t n. n + nElements t) ts a = a + sum_list (map nElements ts)"
    for ts :: "'a tablePartition list" and a
    by (induction ts arbitrary: a) simp_all
  then show ?thesis by (simp add: Size_def)
qed

lemma concat_update_replicate: "j < n \<Longrightarrow> concat ((replicate n [])[j := c]) = c"
proof (induction n arbitrary: j)
  case 0
  then show ?case by simp
next
  case (Suc n)
  then show ?case by (cases j) simp_all
qed

section \<open>Claims\<close>

text \<open>
  C1. On the empty table, for every hash function, key and sequence number, a put of an
  absent value pointer does not return: the new node is linked, \<^verbatim>\<open>bucketIndex\<close> is still
  \<open>-1\<close> and \<^verbatim>\<open>prevNode\<close> is \<^verbatim>\<open>nil\<close>, so the unlink branch indexes
  \<^verbatim>\<open>t.buckets[-1]\<close> and panics.
\<close>

theorem put_absent_value_new_key_panics:
  "Put hashKey (newMemTable :: 'p memTable) k s None = Inl IndexOutOfRange"
  using partition_index_bound[of "hashKey k"]
  by (simp add: Put_def partitionOf_def newMemTable_def numPartitions_def put_def
      newTablePartition_def resizeStep_def findNode_def findIn_def slice_def bucketHash_def
      slen_def initialBucketSize_def linkNew_def setChain_def chainAt_def nodeAt_def
      unlink_def sliceAt_def Let_def)

text \<open>
  C2. The concrete scenario of the spec, for every hash function and all value pointers:
  from the empty table, put a 1 P1, put a 1 P2, get a, remove a 2, get a, put a 3 P3, get a
  return (absent, true), (P1, true), (P2, 1), P2, (absent, 1), (absent, true), (P3, 3).
\<close>

theorem concrete_scenario:
  "results hashKey (newMemTable :: 'p memTable)
     [PutOp [97] 1 (Some P1), PutOp [97] 1 (Some P2), GetOp [97], RemoveOp [97] 2, GetOp [97],
      PutOp [97] 3 (Some P3), GetOp [97]]
   = Inr [PutRes None True, PutRes (Some P1) True, GetRes (Some P2) 1, RemoveRes (Some P2),
          GetRes None 1, PutRes None True, GetRes (Some P3) 3]"
  using partition_index_bound[of "hashKey [97]"]
  by (simp add: model_defs)

text \<open>
  C4. After put a 1 P1, remove a 2, put a 3 P3 on the empty table, for every hash function:
  the table holds one entry whose value pointer is present, yet every partition's
  \<^verbatim>\<open>nElements\<close> is 0 and \<^verbatim>\<open>Size\<close> returns 0. The put that revives a tombstoned entry
  does not increment the counter that remove decremented.
\<close>

theorem size_misses_revived_entry:
  "\<exists>T. run hashKey (newMemTable :: 'p memTable)
          [PutOp [97] 1 (Some P1), RemoveOp [97] 2, PutOp [97] 3 (Some P3)] = Inr T
      \<and> Size T = 0 \<and> sum_list (map nElements (partitions T)) = 0
      \<and> sum_list (map liveCount (partitions T)) = 1"
proof -
  define i where "i = unat (drop_bit 28 (hashKey [97]))"
  define j where "j = unat (hashKey [97]) mod 4"
  define t :: "'p tablePartition" where
    "t = \<lparr>resizeInProgress = False, nextResizeIndex = - 1,
          buckets0 = Some ((replicate 4 [])[j := [\<lparr>seqNumber = 3, key = [97], ptr = Some P3\<rparr>]]),
          buckets1 = None, nElements = 0, nNodes = 1\<rparr>"
  define T :: "'p memTable" where "T = \<lparr>partitions = (replicate 16 newTablePartition)[i := t]\<rparr>"
  have i: "i < 16" unfolding i_def by (rule partition_index_bound)
  have j: "j < 4" unfolding j_def by simp
  have r: "run hashKey (newMemTable :: 'p memTable)
             [PutOp [97] 1 (Some P1), RemoveOp [97] 2, PutOp [97] 3 (Some P3)] = Inr T"
    using i j unfolding T_def t_def i_def j_def by (simp add: model_defs)
  have n0: "nElements (newTablePartition :: 'p tablePartition) = 0"
    "liveCount (newTablePartition :: 'p tablePartition) = 0"
    by (simp_all add: newTablePartition_def liveCount_def nodes_def chains_def initialBucketSize_def)
  have lt: "liveCount t = 1"
    using j by (simp add: t_def liveCount_def nodes_def chains_def concat_update_replicate)
  have s1: "sum_list (map nElements (partitions T)) = 0"
    using sum_list_map_update[of i "replicate 16 (newTablePartition :: 'p tablePartition)" nElements t] i
    by (simp add: T_def n0 t_def sum_list_replicate)
  have s2: "sum_list (map liveCount (partitions T)) = 1"
    using sum_list_map_update[of i "replicate 16 (newTablePartition :: 'p tablePartition)" liveCount t] i
    by (simp add: T_def n0 lt sum_list_replicate)
  show ?thesis using r s1 s2 by (auto simp: Size_sum_list)
qed

end
